theory Spec2Isabelle
  imports Main "HOL-Library.Word"
begin

section \<open>Errors\<close>

text \<open>
  The three sentinel errors of chat.go are created by three separate calls of
  \<open>errors.New\<close>, so they are pairwise different values. \<open>UnmarshalTypeError\<close> is the
  error of encoding/json when a JSON value does not fit the Go type it is decoded into;
  \<open>OtherError\<close> stands for the errors produced by the collaborators of the client
  (request building, transport, API error responses).
\<close>

datatype error =
    ErrChatCompletionInvalidModel
  | ErrChatCompletionStreamNotSupported
  | ErrModelNotSupportedWithPlugins
  | UnmarshalTypeError
  | OtherError string

section \<open>encoding/json on the struct shapes of this package\<close>

text \<open>
  A JSON document, as a tree. An object keeps its members in the order in which they are
  written. The text of a \<open>JString\<close> is the content of the string after unquoting, as
  UTF-8 bytes.
\<close>

datatype json =
    JNull
  | JBool bool
  | JNumber int
  | JString string
  | JArray "json list"
  | JObject "(string \<times> json) list"

text \<open>
  Go values as encoding/json sees them through reflection. \<open>GString\<close> is a string (or a
  named string type such as \<open>Arguments\<close>), \<open>GNil\<close> a nil pointer, \<open>GRef v\<close> a pointer
  to \<open>v\<close>, and \<open>GStruct\<close> a struct without a marshaler
  of its own, given by its fields in declaration order. A field \<open>GField n t om an v\<close> has
  the Go name \<open>n\<close>, the name \<open>t\<close> of its json tag (empty when the tag gives none), the
  \<open>omitempty\<close> option \<open>om\<close>, is embedded when \<open>an\<close> holds, and has the value \<open>v\<close>.
\<close>

datatype gvalue =
    GString string
  | GNil
  | GRef gvalue
  | GStruct "gfield list"
and gfield = GField string string bool bool gvalue

text \<open>
  One field of the flattened field list of a struct type: the JSON name, the embedding
  depth at which the field was found, whether the name comes from a tag, the
  \<open>omitempty\<close> option, and the value.
\<close>

datatype sfield =
  SField (sname: string) (sdepth: nat) (stagged: bool) (somitEmpty: bool) (svalue: gvalue)

text \<open>
  \<open>typeFields\<close> of encoding/json: the fields of a struct, with the fields of embedded
  structs (and of embedded pointers to structs) that carry no tag name lifted to the
  next depth. The list is in index order, which is the order in which the encoder
  writes the members. An embedded nil pointer contributes nothing here; the structs
  marshalled in this package never embed a nil pointer.
\<close>

fun typeFields :: "nat \<Rightarrow> gfield list \<Rightarrow> sfield list" where
  "typeFields d [] = []"
| "typeFields d (GField n t om an v # fs) =
     (if an \<and> t = [] then
        (case v of
           GStruct gs \<Rightarrow> typeFields (Suc d) gs
         | GRef (GStruct gs) \<Rightarrow> typeFields (Suc d) gs
         | GNil \<Rightarrow> []
         | _ \<Rightarrow> [SField n d False om v])
      else [SField (if t = [] then n else t) d (t \<noteq> []) om v])
     @ typeFields d fs"

text \<open>
  Go's rule for fields with one JSON name (\<open>dominantField\<close>): the candidates are ordered by
  depth, then tagged before untagged; the first one wins unless the second one has the
  same depth and the same tag status, in which case the name is dropped altogether.
  So a field is kept exactly when no other field of the same name is at least as good,
  that is, when it is the only field of its name that it does not outrank.
\<close>

definition outranks :: "sfield \<Rightarrow> sfield \<Rightarrow> bool" where
  "outranks f g =
     (sdepth f < sdepth g \<or> (sdepth f = sdepth g \<and> stagged f \<and> \<not> stagged g))"

definition dominantField :: "sfield list \<Rightarrow> sfield \<Rightarrow> bool" where
  "dominantField fields f =
     (length (filter (\<lambda>g. sname g = sname f \<and> \<not> outranks f g) fields) = 1)"

text \<open>
  \<open>isEmptyValue\<close>: what \<open>omitempty\<close> leaves out. An empty string and a nil pointer are
  empty; a struct never is, which is why the two \<open>MarshalJSON\<close> methods of this package
  exist.
\<close>

fun isEmptyValue :: "gvalue \<Rightarrow> bool" where
  "isEmptyValue (GString s) = (s = [])"
| "isEmptyValue GNil = True"
| "isEmptyValue (GRef v) = False"
| "isEmptyValue (GStruct fs) = False"

subsection \<open>Strings\<close>

text \<open>
  A Go string is any sequence of bytes. The encoder walks it rune by rune with
  \<open>utf8.DecodeRuneInString\<close>; a byte that starts no well-formed UTF-8 sequence is
  written as the escape of U+FFFD, everything else is written either as it is or as an
  escape that unquotes to the same bytes. \<open>DecodeRuneInString\<close> below returns the size
  of the well-formed rune at the head of the string, \<open>None\<close> for Go's
  \<open>(RuneError, 1)\<close>; the tables \<open>first\<close> and \<open>acceptRanges\<close> of unicode/utf8 are
  \<open>first_size\<close>, \<open>accept_lo\<close> and \<open>accept_hi\<close>.
\<close>

definition first_size :: "nat \<Rightarrow> nat" where
  "first_size b =
     (if b < 0x80 then 1 else if b < 0xC2 then 0 else if b < 0xE0 then 2
      else if b < 0xF0 then 3 else if b < 0xF5 then 4 else 0)"

definition accept_lo :: "nat \<Rightarrow> nat" where
  "accept_lo b = (if b = 0xE0 then 0xA0 else if b = 0xF0 then 0x90 else 0x80)"

definition accept_hi :: "nat \<Rightarrow> nat" where
  "accept_hi b = (if b = 0xED then 0x9F else if b = 0xF4 then 0x8F else 0xBF)"

definition continuation :: "nat \<Rightarrow> bool" where
  "continuation b = (0x80 \<le> b \<and> b \<le> 0xBF)"

fun DecodeRuneInString :: "string \<Rightarrow> nat option" where
  "DecodeRuneInString [] = None"
| "DecodeRuneInString (c # cs) =
     (let s0 = of_char c; sz = first_size s0; bs = map of_char cs in
      if sz = 0 then None
      else if sz = 1 then Some 1
      else if Suc (length bs) < sz then None
      else if bs ! 0 < accept_lo s0 \<or> accept_hi s0 < bs ! 0 then None
      else if sz \<le> 2 then Some 2
      else if \<not> continuation (bs ! 1) then None
      else if sz \<le> 3 then Some 3
      else if \<not> continuation (bs ! 2) then None
      else Some 4)"

lemma DecodeRuneInString_pos: "DecodeRuneInString s = Some n \<Longrightarrow> 0 < n"
  by (cases s) (auto simp: Let_def split: if_splits)

text \<open>The UTF-8 encoding of U+FFFD, the replacement character.\<close>

definition RuneError :: string where
  "RuneError = [CHR 0xEF, CHR 0xBF, CHR 0xBD]"

text \<open>
  \<open>appendString s\<close> is the content of the JSON string that the encoder writes for the Go
  string \<open>s\<close>: the loop of the encoder's \<open>appendString\<close>, followed by unquoting.
\<close>

function appendString :: "string \<Rightarrow> string" where
  "appendString [] = []"
| "appendString (c # cs) =
     (case DecodeRuneInString (c # cs) of
        None \<Rightarrow> RuneError @ appendString cs
      | Some n \<Rightarrow> take n (c # cs) @ appendString (drop n (c # cs)))"
  by pat_completeness auto
termination
  by (relation "measure length")
     (auto dest: DecodeRuneInString_pos simp del: DecodeRuneInString.simps)

text \<open>\<open>utf8.ValidString\<close>: the string is a sequence of well-formed runes.\<close>

function ValidString :: "string \<Rightarrow> bool" where
  "ValidString [] = True"
| "ValidString (c # cs) =
     (case DecodeRuneInString (c # cs) of
        None \<Rightarrow> False
      | Some n \<Rightarrow> ValidString (drop n (c # cs)))"
  by pat_completeness auto
termination
  by (relation "measure length")
     (auto dest: DecodeRuneInString_pos simp del: DecodeRuneInString.simps)

lemmas utf8_defs =
  first_size_def accept_lo_def accept_hi_def continuation_def RuneError_def

lemma appendString_valid: "ValidString s \<Longrightarrow> appendString s = s"
  by (induction s rule: appendString.induct)
     (auto split: option.splits simp del: DecodeRuneInString.simps)

subsection \<open>Marshal\<close>

lemma typeFields_size:
  "f \<in> set (typeFields d fs) \<Longrightarrow> size (svalue f) < Suc (size_list size fs)"
  by (induction d fs rule: typeFields.induct) (auto split: if_splits gvalue.splits)

text \<open>
  The encoder. A struct becomes an object with one member for each dominant field whose
  value is not left out by \<open>omitempty\<close>, in index order.
\<close>

function encode :: "gvalue \<Rightarrow> json" where
  "encode (GString s) = JString (appendString s)"
| "encode GNil = JNull"
| "encode (GRef v) = encode v"
| "encode (GStruct fs) =
     JObject (map (\<lambda>f. (sname f, encode (svalue f)))
       (filter (\<lambda>f. \<not> (somitEmpty f \<and> isEmptyValue (svalue f)))
         (filter (dominantField (typeFields 0 fs)) (typeFields 0 fs))))"
  by pat_completeness auto
termination
  by (relation "measure size") (auto dest: typeFields_size)

text \<open>
  \<open>json.Marshal\<close> returns the encoding and an error. None of the value shapes above makes
  the encoder fail.
\<close>

definition json_Marshal :: "gvalue \<Rightarrow> error + json" where
  "json_Marshal v = Inr (encode v)"

text \<open>The member names of an object, and the value of a member.\<close>

fun object_keys :: "json \<Rightarrow> string list" where
  "object_keys (JObject kvs) = map fst kvs"
| "object_keys j = []"

fun member :: "string \<Rightarrow> json \<Rightarrow> json option" where
  "member k (JObject kvs) = map_of kvs k"
| "member k j = None"

text \<open>Every member name that occurs in a document, at any depth.\<close>

fun all_keys :: "json \<Rightarrow> string list" where
  "all_keys (JObject kvs) = concat (map (\<lambda>kv. fst kv # all_keys (snd kv)) kvs)"
| "all_keys (JArray js) = concat (map all_keys js)"
| "all_keys j = []"

section \<open>Messages\<close>

text \<open>
  \<open>Arguments\<close> is a named string type. Fields whose Go name occurs in more than one
  struct carry the struct's name as a prefix.
\<close>

type_synonym Arguments = string

record FunctionCall =
  FunctionCall_Name :: string
  FunctionCall_Arguments :: Arguments

definition zeroFunctionCall :: FunctionCall where
  "zeroFunctionCall = \<lparr>FunctionCall_Name = [], FunctionCall_Arguments = []\<rparr>"

record ChatCompletionMessage =
  Role :: string
  Content :: string
  FunctionCall :: FunctionCall
  Name :: string

record ChatCompletionStreamChoiceDelta =
  Delta_Content :: string
  Delta_Role :: string
  Delta_FunctionCall :: FunctionCall

text \<open>The three struct types with their tags, as the encoder sees a value of each.\<close>

definition FunctionCall_value :: "FunctionCall \<Rightarrow> gvalue" where
  "FunctionCall_value f = GStruct
     [GField ''Name'' ''name'' True False (GString (FunctionCall_Name f)),
      GField ''Arguments'' ''arguments'' True False (GString (FunctionCall_Arguments f))]"

text \<open>
  \<open>type Alias ChatCompletionMessage\<close>: the same fields and tags, and none of the methods,
  so encoding an \<open>Alias\<close> does not call \<open>MarshalJSON\<close> again.
\<close>

definition Message_Alias :: "ChatCompletionMessage \<Rightarrow> gvalue" where
  "Message_Alias c = GStruct
     [GField ''Role'' ''role'' False False (GString (Role c)),
      GField ''Content'' ''content'' False False (GString (Content c)),
      GField ''FunctionCall'' ''function_call'' True False (FunctionCall_value (FunctionCall c)),
      GField ''Name'' ''name'' True False (GString (Name c))]"

definition Delta_Alias :: "ChatCompletionStreamChoiceDelta \<Rightarrow> gvalue" where
  "Delta_Alias c = GStruct
     [GField ''Content'' ''content'' True False (GString (Delta_Content c)),
      GField ''Role'' ''role'' True False (GString (Delta_Role c)),
      GField ''FunctionCall'' ''function_call'' True False
        (FunctionCall_value (Delta_FunctionCall c))]"

text \<open>
  \<open>ChatCompletionMessage.MarshalJSON\<close>. In the first branch the anonymous struct declares
  the pointer field before the embedded \<open>Alias\<close> value; in the second the embedded
  pointer to \<open>Alias\<close> comes first.
\<close>

definition MarshalJSON :: "ChatCompletionMessage \<Rightarrow> error + json" where
  "MarshalJSON c =
     (if FunctionCall c = zeroFunctionCall then
        json_Marshal (GRef (GStruct
          [GField ''FunctionCall'' ''function_call'' True False GNil,
           GField ''Alias'' [] False True (Message_Alias c)]))
      else
        json_Marshal (GRef (GStruct
          [GField ''Alias'' [] False True (GRef (Message_Alias c)),
           GField ''FunctionCall'' ''function_call'' True False
             (GRef (FunctionCall_value (FunctionCall c)))])))"

text \<open>\<open>ChatCompletionStreamChoiceDelta.MarshalJSON\<close>, of the same shape.\<close>

definition Delta_MarshalJSON :: "ChatCompletionStreamChoiceDelta \<Rightarrow> error + json" where
  "Delta_MarshalJSON c =
     (if Delta_FunctionCall c = zeroFunctionCall then
        json_Marshal (GRef (GStruct
          [GField ''FunctionCall'' ''function_call'' True False GNil,
           GField ''Alias'' [] False True (Delta_Alias c)]))
      else
        json_Marshal (GRef (GStruct
          [GField ''Alias'' [] False True (GRef (Delta_Alias c)),
           GField ''FunctionCall'' ''function_call'' True False
             (GRef (FunctionCall_value (Delta_FunctionCall c)))])))"

subsection \<open>Unmarshal\<close>

text \<open>
  Neither message type has an \<open>UnmarshalJSON\<close> method, so \<open>json.Unmarshal\<close> decodes
  into them field by field. A member of the object is matched to a field by its exact
  name first and by case-insensitive comparison otherwise; a member that matches no field
  is skipped; \<open>null\<close> leaves the field as it is; a value of the wrong kind is an
  \<open>UnmarshalTypeError\<close>. Later members overwrite earlier ones.
\<close>

definition foldName :: "string \<Rightarrow> string" where
  "foldName s =
     map (\<lambda>c. let n = (of_char c :: nat)
               in if 0x41 \<le> n \<and> n \<le> 0x5A then char_of (n + 0x20) else c) s"

definition findField :: "string list \<Rightarrow> string \<Rightarrow> string option" where
  "findField names key =
     (if key \<in> set names then Some key
      else find (\<lambda>n. foldName n = foldName key) names)"

fun unmarshal_string :: "json \<Rightarrow> string \<Rightarrow> error + string" where
  "unmarshal_string (JString s) cur = Inr s"
| "unmarshal_string JNull cur = Inr cur"
| "unmarshal_string j cur = Inl UnmarshalTypeError"

fun unmarshal_members ::
  "(string \<Rightarrow> json \<Rightarrow> 'a \<Rightarrow> error + 'a) \<Rightarrow> (string \<times> json) list \<Rightarrow> 'a \<Rightarrow> error + 'a"
where
  "unmarshal_members setField [] v = Inr v"
| "unmarshal_members setField ((k, j) # kvs) v =
     (case setField k j v of
        Inl e \<Rightarrow> Inl e
      | Inr v' \<Rightarrow> unmarshal_members setField kvs v')"

definition FunctionCall_setField :: "string \<Rightarrow> json \<Rightarrow> FunctionCall \<Rightarrow> error + FunctionCall"
where
  "FunctionCall_setField key j f =
     (case findField [''name'', ''arguments''] key of
        None \<Rightarrow> Inr f
      | Some n \<Rightarrow>
          if n = ''name'' then
            (case unmarshal_string j (FunctionCall_Name f) of
               Inl e \<Rightarrow> Inl e
             | Inr s \<Rightarrow> Inr (f\<lparr>FunctionCall_Name := s\<rparr>))
          else
            (case unmarshal_string j (FunctionCall_Arguments f) of
               Inl e \<Rightarrow> Inl e
             | Inr s \<Rightarrow> Inr (f\<lparr>FunctionCall_Arguments := s\<rparr>)))"

fun unmarshal_FunctionCall :: "json \<Rightarrow> FunctionCall \<Rightarrow> error + FunctionCall" where
  "unmarshal_FunctionCall (JObject kvs) f = unmarshal_members FunctionCall_setField kvs f"
| "unmarshal_FunctionCall JNull f = Inr f"
| "unmarshal_FunctionCall j f = Inl UnmarshalTypeError"

definition Message_setField ::
  "string \<Rightarrow> json \<Rightarrow> ChatCompletionMessage \<Rightarrow> error + ChatCompletionMessage"
where
  "Message_setField key j c =
     (case findField [''role'', ''content'', ''function_call'', ''name''] key of
        None \<Rightarrow> Inr c
      | Some n \<Rightarrow>
          if n = ''role'' then
            (case unmarshal_string j (Role c) of
               Inl e \<Rightarrow> Inl e
             | Inr s \<Rightarrow> Inr (c\<lparr>Role := s\<rparr>))
          else if n = ''content'' then
            (case unmarshal_string j (Content c) of
               Inl e \<Rightarrow> Inl e
             | Inr s \<Rightarrow> Inr (c\<lparr>Content := s\<rparr>))
          else if n = ''function_call'' then
            (case unmarshal_FunctionCall j (FunctionCall c) of
               Inl e \<Rightarrow> Inl e
             | Inr f \<Rightarrow> Inr (c\<lparr>FunctionCall := f\<rparr>))
          else
            (case unmarshal_string j (Name c) of
               Inl e \<Rightarrow> Inl e
             | Inr s \<Rightarrow> Inr (c\<lparr>Name := s\<rparr>)))"

fun unmarshal_Message ::
  "json \<Rightarrow> ChatCompletionMessage \<Rightarrow> error + ChatCompletionMessage"
where
  "unmarshal_Message (JObject kvs) c = unmarshal_members Message_setField kvs c"
| "unmarshal_Message JNull c = Inr c"
| "unmarshal_Message j c = Inl UnmarshalTypeError"

definition zeroChatCompletionMessage :: ChatCompletionMessage where
  "zeroChatCompletionMessage =
     \<lparr>Role = [], Content = [], FunctionCall = zeroFunctionCall, Name = []\<rparr>"

text \<open>
  Encoding a message and decoding the result into a fresh message:
  \<open>b, err := json.Marshal(m)\<close>, then \<open>var m2 ChatCompletionMessage\<close> and
  \<open>json.Unmarshal(b, &m2)\<close>.
\<close>

definition decode_encode :: "ChatCompletionMessage \<Rightarrow> error + ChatCompletionMessage" where
  "decode_encode m =
     (case MarshalJSON m of
        Inl e \<Rightarrow> Inl e
      | Inr j \<Rightarrow> unmarshal_Message j zeroChatCompletionMessage)"

section \<open>Requests and responses\<close>

text \<open>
  Go's \<open>int\<close> and \<open>int64\<close> are 64-bit words (on a 64-bit platform); a \<open>float32\<close> is
  kept as its 32 bits, since no function here computes with one. A slice is a list and a
  map a partial function: no function here writes through either.
\<close>

type_synonym go_int = "64 word"
type_synonym float32 = "32 word"
type_synonym JSONSchemaType = string
type_synonym FinishReason = string

datatype JSONSchema =
  JSONSchema
    (JSONSchema_Type: JSONSchemaType)
    (JSONSchema_Description: string)
    (JSONSchema_Enum: "string list")
    (JSONSchema_Properties: "string \<Rightarrow> JSONSchema option option")
    (JSONSchema_Required: "string list")

record FuncParameters =
  FuncParameters_Type :: JSONSchemaType
  FuncParameters_Properties :: "string \<rightharpoonup> JSONSchema"
  FuncParameters_Required :: "string list"

record Functions =
  Functions_Name :: string
  Functions_Description :: string
  Functions_Parameters :: FuncParameters

record ChatCompletionRequest =
  Model :: string
  Messages :: "ChatCompletionMessage list"
  MaxTokens :: go_int
  Temperature :: float32
  TopP :: float32
  N :: go_int
  Stream :: bool
  Stop :: "string list"
  PresencePenalty :: float32
  FrequencyPenalty :: float32
  LogitBias :: "string \<rightharpoonup> go_int"
  User :: string
  Functions :: "Functions list"

record ChatCompletionChoice =
  Choice_Index :: go_int
  Message :: ChatCompletionMessage
  Choice_FinishReason :: FinishReason

text \<open>The struct \<open>Usage\<close> is declared in another file; it is a type parameter here.\<close>

record 'usage ChatCompletionResponse =
  Response_ID :: string
  Response_Object :: string
  Response_Created :: "64 word"
  Response_Model :: string
  Response_Choices :: "ChatCompletionChoice list"
  Response_Usage :: 'usage

definition zeroChatCompletionResponse :: "'usage \<Rightarrow> 'usage ChatCompletionResponse" where
  "zeroChatCompletionResponse u =
     \<lparr>Response_ID = [], Response_Object = [], Response_Created = 0, Response_Model = [],
      Response_Choices = [], Response_Usage = u\<rparr>"

record ChatCompletionStreamChoice =
  StreamChoice_Index :: go_int
  Delta :: ChatCompletionStreamChoiceDelta
  StreamChoice_FinishReason :: FinishReason

record ChatCompletionStreamResponse =
  StreamResponse_ID :: string
  StreamResponse_Object :: string
  StreamResponse_Created :: "64 word"
  StreamResponse_Model :: string
  StreamResponse_Choices :: "ChatCompletionStreamChoice list"

section \<open>The streaming reader\<close>

text \<open>
  What one read of the next line from the response body gives: a line, with its
  terminator, or a failure with its cause. The body is the list of the reads still to
  come; an empty list is a clean end of the stream.
\<close>

datatype line_read = Line string | ReadFailure string

text \<open>\<open>http.Response\<close>, as far as the client looks at it.\<close>

record Response =
  StatusCode :: int
  Body :: "line_read list"

text \<open>
  Modelled from the spec: the outcomes of \<open>recv\<close>, which is declared outside chat.go
  and \<^verbatim>\<open>chat_stream.go\<close>. A failure is the cause of a failed read, the empty-message
  tolerance exceeded, or a decode error with the accumulated bytes; \<open>Done\<close> and
  \<open>Failed\<close> are the terminal outcomes, \<open>Received\<close> carries an event.
\<close>

datatype failure = Underlying string | EmptyExceeded | DecodeError string

datatype stream_outcome = Done | Failed failure

datatype 'e recv_result = Received 'e | Ended stream_outcome

text \<open>
  Modelled from the spec: the struct \<open>streamReader\<close>, whose declaration is outside
  chat.go and \<^verbatim>\<open>chat_stream.go\<close>. Its first five fields are those that the literal in
  \<open>CreateChatCompletionStream\<close> sets. The empty-message counter and the terminal
  state (\<open>Open\<close> is \<open>None\<close>, \<open>Closed\<close> keeps the terminal outcome) are the
  reader state that the spec describes; a new reader has the counter at zero and is
  open.
\<close>

record 'e streamReader =
  emptyMessagesLimit :: nat
  reader :: "line_read list"
  response :: Response
  errAccumulator :: string
  unmarshaler :: "string \<Rightarrow> 'e option"
  emptyMessagesCount :: nat
  terminal :: "stream_outcome option"

type_synonym ChatCompletionStream = "ChatCompletionStreamResponse streamReader"

text \<open>
  Modelled from the spec: step 2 of \<open>recv\<close> trims the trailing carriage returns and
  newlines of the line read.
\<close>

definition trim :: "string \<Rightarrow> string" where
  "trim l = rev (dropWhile (\<lambda>c. c = CHR 0x0D \<or> c = CHR 0x0A) (rev l))"

text \<open>
  Modelled from the spec: the prefix of an event line, from the wire format
  \<open>data: <json-payload>\<close>.
\<close>

definition headerData :: string where
  "headerData = ''data: ''"

text \<open>Modelled from the spec: step 3 of \<open>recv\<close> tests whether the line begins with the prefix.\<close>

definition hasPrefix :: "string \<Rightarrow> string \<Rightarrow> bool" where
  "hasPrefix l p = (take (length p) l = p)"

text \<open>
  Modelled from the spec: the loop of \<open>recv\<close> (steps 1 to 4 of the spec's streaming
  reader). The arguments are the decoder, the tolerance, the reads still to come, the
  empty-message counter and the accumulated bytes; the result is the outcome with the
  new values of the last three.
\<close>

fun recv_loop ::
  "(string \<Rightarrow> 'e option) \<Rightarrow> nat \<Rightarrow> line_read list \<Rightarrow> nat \<Rightarrow> string
   \<Rightarrow> 'e recv_result \<times> line_read list \<times> nat \<times> string"
where
  "recv_loop dec lim [] cnt acc = (Ended Done, [], cnt, acc)"
| "recv_loop dec lim (ReadFailure cause # rest) cnt acc =
     (Ended (Failed (Underlying cause)), rest, cnt, acc)"
| "recv_loop dec lim (Line l # rest) cnt acc =
     (if trim l = [] then
        (if lim < Suc cnt then (Ended (Failed EmptyExceeded), rest, Suc cnt, acc)
         else recv_loop dec lim rest (Suc cnt) acc)
      else if \<not> hasPrefix (trim l) headerData then recv_loop dec lim rest cnt acc
      else if drop (length headerData) (trim l) = ''[DONE]'' then (Ended Done, rest, cnt, acc)
      else
        (case dec (drop (length headerData) (trim l)) of
           None \<Rightarrow>
             (Ended (Failed (DecodeError (acc @ drop (length headerData) (trim l)))), rest, cnt,
              acc @ drop (length headerData) (trim l))
         | Some ev \<Rightarrow> (Received ev, rest, 0, acc)))"

text \<open>
  Modelled from the spec: \<open>recv\<close>. A closed reader stays closed and gives its terminal
  outcome again; an open one runs the loop and closes on a terminal outcome.
\<close>

definition recv :: "'e streamReader \<Rightarrow> 'e recv_result \<times> 'e streamReader" where
  "recv r =
     (case terminal r of
        Some out \<Rightarrow> (Ended out, r)
      | None \<Rightarrow>
          (case recv_loop (unmarshaler r) (emptyMessagesLimit r) (reader r)
                  (emptyMessagesCount r) (errAccumulator r) of
             (res, rest, cnt, acc) \<Rightarrow>
               (res, r\<lparr>reader := rest, errAccumulator := acc, emptyMessagesCount := cnt,
                       terminal := (case res of Received ev \<Rightarrow> None | Ended out \<Rightarrow> Some out)\<rparr>)))"

text \<open>The outcomes of \<open>k\<close> calls of \<open>recv\<close> in a row, and the reader after them.\<close>

fun recv_many :: "nat \<Rightarrow> 'e streamReader \<Rightarrow> 'e recv_result list \<times> 'e streamReader" where
  "recv_many 0 r = ([], r)"
| "recv_many (Suc k) r =
     (case recv r of (res, r') \<Rightarrow>
        (case recv_many k r' of (ress, r'') \<Rightarrow> (res # ress, r'')))"

section \<open>The client operations\<close>

text \<open>
  The package-level functions that the two operations call and whose declarations are
  in files not at hand are parameters: the two model checks, the decoder that a new
  reader is given, and the zero value of \<open>Usage\<close>.
\<close>

record 'usage package =
  checkModelSupportsPlugins :: "string \<Rightarrow> bool"
  checkEndpointSupportsModel :: "string \<Rightarrow> string \<Rightarrow> bool"
  JSONUnmarshaler :: "string \<Rightarrow> ChatCompletionStreamResponse option"
  zeroUsage :: 'usage

text \<open>
  Modelled from the spec: \<open>isFailureStatusCode\<close>, which is declared outside chat.go and
  \<^verbatim>\<open>chat_stream.go\<close>. The spec has the streaming call turn a non-2xx status into
  an API error before any streaming begins: a status outside 200 to 299 is a failure.
\<close>

definition isFailureStatusCode :: "Response \<Rightarrow> bool" where
  "isFailureStatusCode resp = (StatusCode resp < 200 \<or> 300 \<le> StatusCode resp)"

text \<open>
  The client: its configuration and the methods of \<open>Client\<close> that the two operations
  call. \<open>'req\<close> is the type of a built HTTP request, \<open>'net\<close> the state of everything
  beyond the transport. Building a request is a function of its arguments; dispatching
  one (\<open>HTTPClient.Do\<close>, \<open>sendRequest\<close>) reads and changes the network state.
  \<open>sendRequest\<close> also takes the response value that it decodes into. The context
  argument only reaches these collaborators and is left out.
\<close>

record ('req, 'net, 'usage) Client =
  EmptyMessagesLimit :: nat
  HTTPClient_Do :: "'req \<Rightarrow> 'net \<Rightarrow> (error + Response) \<times> 'net"
  requestBuilder_Build :: "string \<Rightarrow> string \<Rightarrow> ChatCompletionRequest \<Rightarrow> error + 'req"
  fullURL :: "string \<Rightarrow> string \<Rightarrow> string"
  sendRequest ::
    "'req \<Rightarrow> 'usage ChatCompletionResponse \<Rightarrow> 'net
     \<Rightarrow> (error option \<times> 'usage ChatCompletionResponse) \<times> 'net"
  newStreamRequest :: "string \<Rightarrow> string \<Rightarrow> ChatCompletionRequest \<Rightarrow> string \<Rightarrow> error + 'req"
  handleErrorResp :: "Response \<Rightarrow> error"

text \<open>
  What an operation does to the outside is kept in a trace: \<open>BuildRequest\<close> is a call of
  a request builder with its method, URL (or URL suffix) and payload, \<open>Dispatch\<close> the
  handing of a built request to the transport.
\<close>

datatype 'req event =
    BuildRequest string string ChatCompletionRequest
  | Dispatch 'req

record ('req, 'net) world =
  trace :: "'req event list"
  net :: 'net

text \<open>
  \<open>CreateChatCompletion\<close>. The result is the pair of the named results \<open>response\<close> and
  \<open>err\<close> (\<open>None\<close> is \<open>nil\<close>), and the world after the call.
\<close>

definition CreateChatCompletion ::
  "'usage package \<Rightarrow> ('req, 'net, 'usage) Client \<Rightarrow> ChatCompletionRequest \<Rightarrow> ('req, 'net) world
   \<Rightarrow> ('usage ChatCompletionResponse \<times> error option) \<times> ('req, 'net) world"
where
  "CreateChatCompletion p c request w =
     (let zero = zeroChatCompletionResponse (zeroUsage p) in
      if Stream request then ((zero, Some ErrChatCompletionStreamNotSupported), w)
      else if \<not> checkModelSupportsPlugins p (Model request) then
        ((zero, Some ErrModelNotSupportedWithPlugins), w)
      else
        let urlSuffix = ''/chat/completions'' in
        if \<not> checkEndpointSupportsModel p urlSuffix (Model request) then
          ((zero, Some ErrChatCompletionInvalidModel), w)
        else
          let url = fullURL c urlSuffix (Model request);
              w1 = w\<lparr>trace := trace w @ [BuildRequest ''POST'' url request]\<rparr>
          in
          (case requestBuilder_Build c ''POST'' url request of
             Inl e \<Rightarrow> ((zero, Some e), w1)
           | Inr req \<Rightarrow>
               (case sendRequest c req zero (net w1) of
                  ((err, resp), n') \<Rightarrow>
                    ((resp, err), \<lparr>trace = trace w1 @ [Dispatch req], net = n'\<rparr>))))"

text \<open>
  \<open>CreateChatCompletionStream\<close>. The parameter \<open>request\<close> and the named results
  \<open>stream\<close> and \<open>err\<close> are the variables of the call's own frame; the body works on the
  frame, and the call returns the two results of the final frame.
\<close>

record frame =
  f_request :: ChatCompletionRequest
  f_stream :: "ChatCompletionStream option"
  f_err :: "error option"

definition CreateChatCompletionStream_body ::
  "'usage package \<Rightarrow> ('req, 'net, 'usage) Client \<Rightarrow> frame \<Rightarrow> ('req, 'net) world
   \<Rightarrow> frame \<times> ('req, 'net) world"
where
  "CreateChatCompletionStream_body p c fr w =
     (if \<not> checkModelSupportsPlugins p (Model (f_request fr)) then
        (fr\<lparr>f_err := Some ErrModelNotSupportedWithPlugins\<rparr>, w)
      else
        let urlSuffix = ''/chat/completions'' in
        if \<not> checkEndpointSupportsModel p urlSuffix (Model (f_request fr)) then
          (fr\<lparr>f_err := Some ErrChatCompletionInvalidModel\<rparr>, w)
        else
          let fr1 = fr\<lparr>f_request := (f_request fr)\<lparr>Stream := True\<rparr>\<rparr>;
              w1 = w\<lparr>trace := trace w @ [BuildRequest ''POST'' urlSuffix (f_request fr1)]\<rparr>
          in
          (case newStreamRequest c ''POST'' urlSuffix (f_request fr1) (Model (f_request fr1)) of
             Inl e \<Rightarrow> (fr1\<lparr>f_err := Some e\<rparr>, w1)
           | Inr req \<Rightarrow>
               (case HTTPClient_Do c req (net w1) of
                  (res, n') \<Rightarrow>
                    let w2 = \<lparr>trace = trace w1 @ [Dispatch req], net = n'\<rparr> in
                    (case res of
                       Inl e \<Rightarrow> (fr1\<lparr>f_err := Some e\<rparr>, w2)
                     | Inr resp \<Rightarrow>
                         if isFailureStatusCode resp then
                           (fr1\<lparr>f_stream := None, f_err := Some (handleErrorResp c resp)\<rparr>, w2)
                         else
                           (fr1\<lparr>f_stream := Some
                                  \<lparr>emptyMessagesLimit = EmptyMessagesLimit c,
                                   reader = Body resp,
                                   response = resp,
                                   errAccumulator = [],
                                   unmarshaler = JSONUnmarshaler p,
                                   emptyMessagesCount = 0,
                                   terminal = None\<rparr>,
                                f_err := None\<rparr>, w2)))))"

definition CreateChatCompletionStream ::
  "'usage package \<Rightarrow> ('req, 'net, 'usage) Client \<Rightarrow> ChatCompletionRequest \<Rightarrow> ('req, 'net) world
   \<Rightarrow> (ChatCompletionStream option \<times> error option) \<times> ('req, 'net) world"
where
  "CreateChatCompletionStream p c request w =
     (case CreateChatCompletionStream_body p c
             \<lparr>f_request = request, f_stream = None, f_err = None\<rparr> w of
        (fr, w') \<Rightarrow> ((f_stream fr, f_err fr), w'))"

text \<open>The events that a call added to the trace.\<close>

definition new_events :: "('req, 'net) world \<Rightarrow> ('req, 'net) world \<Rightarrow> 'req event list" where
  "new_events w w' = drop (length (trace w)) (trace w')"

fun built_requests :: "'req event list \<Rightarrow> ChatCompletionRequest list" where
  "built_requests [] = []"
| "built_requests (BuildRequest m u r # evs) = r # built_requests evs"
| "built_requests (Dispatch q # evs) = built_requests evs"

fun dispatched :: "'req event list \<Rightarrow> 'req list" where
  "dispatched [] = []"
| "dispatched (BuildRequest m u r # evs) = dispatched evs"
| "dispatched (Dispatch q # evs) = q # dispatched evs"

section \<open>A small client\<close>

text \<open>
  One concrete setting in which the operations can be run. The chat endpoint accepts
  every model but two; two models support plugins. The transport answers every request
  with the status held in the network state.
\<close>

definition example_package :: "unit package" where
  "example_package =
     \<lparr>checkModelSupportsPlugins = (\<lambda>m. m \<in> set [''gpt-4-0613'', ''code-davinci-002'']),
      checkEndpointSupportsModel =
        (\<lambda>u m. \<not> (u = ''/chat/completions'' \<and> m \<in> set [''code-davinci-002'', ''ada''])),
      JSONUnmarshaler = (\<lambda>s. None),
      zeroUsage = ()\<rparr>"

definition example_client :: "(string, int, unit) Client" where
  "example_client =
     \<lparr>EmptyMessagesLimit = 300,
      HTTPClient_Do = (\<lambda>q n. (Inr \<lparr>StatusCode = n, Body = [Line ''data: [DONE]'']\<rparr>, n)),
      requestBuilder_Build = (\<lambda>m u r. Inr (m @ '' '' @ u)),
      fullURL = (\<lambda>u m. ''https://api.openai.com/v1'' @ u),
      sendRequest = (\<lambda>q r n. ((None, r), n)),
      newStreamRequest = (\<lambda>m u r md. Inr (m @ '' '' @ u)),
      handleErrorResp = (\<lambda>r. OtherError ''api error'')\<rparr>"

definition example_request :: "string \<Rightarrow> bool \<Rightarrow> ChatCompletionRequest" where
  "example_request m s =
     \<lparr>Model = m,
      Messages = [\<lparr>Role = ''user'', Content = ''hi'', FunctionCall = zeroFunctionCall,
                   Name = []\<rparr>],
      MaxTokens = 0, Temperature = 0, TopP = 0, N = 0, Stream = s, Stop = [],
      PresencePenalty = 0, FrequencyPenalty = 0, LogitBias = Map.empty, User = [],
      Functions = []\<rparr>"

definition example_world :: "int \<Rightarrow> (string, int) world" where
  "example_world status = \<lparr>trace = [], net = status\<rparr>"

text \<open>A reader of numbers with tolerance 2, on a body still to be given.\<close>

definition example_reader :: "nat streamReader" where
  "example_reader =
     \<lparr>emptyMessagesLimit = 2, reader = [], response = \<lparr>StatusCode = 200, Body = []\<rparr>,
      errAccumulator = [], unmarshaler = (\<lambda>s. if s = ''7'' then Some 7 else None),
      emptyMessagesCount = 0, terminal = None\<rparr>"

section \<open>What the two marshalers write\<close>

lemmas marshal_defs =
  json_Marshal_def Message_Alias_def Delta_Alias_def dominantField_def outranks_def

lemma encode_FunctionCall:
  "encode (FunctionCall_value f) = JObject
     ((if FunctionCall_Name f = [] then []
       else [(''name'', JString (appendString (FunctionCall_Name f)))])
      @ (if FunctionCall_Arguments f = [] then []
         else [(''arguments'', JString (appendString (FunctionCall_Arguments f)))]))"
  by (simp add: FunctionCall_value_def dominantField_def outranks_def)

lemma MarshalJSON_zero:
  "FunctionCall c = zeroFunctionCall \<Longrightarrow>
   MarshalJSON c = Inr (JObject
     ([(''role'', JString (appendString (Role c))),
       (''content'', JString (appendString (Content c)))]
      @ (if Name c = [] then [] else [(''name'', JString (appendString (Name c)))])))"
  by (simp add: MarshalJSON_def marshal_defs FunctionCall_value_def)

lemma MarshalJSON_nonzero:
  "FunctionCall c \<noteq> zeroFunctionCall \<Longrightarrow>
   MarshalJSON c = Inr (JObject
     ([(''role'', JString (appendString (Role c))),
       (''content'', JString (appendString (Content c)))]
      @ (if Name c = [] then [] else [(''name'', JString (appendString (Name c)))])
      @ [(''function_call'', encode (FunctionCall_value (FunctionCall c)))]))"
  by (simp add: MarshalJSON_def marshal_defs)

lemma Delta_MarshalJSON_zero:
  "Delta_FunctionCall c = zeroFunctionCall \<Longrightarrow>
   Delta_MarshalJSON c = Inr (JObject
     ((if Delta_Content c = [] then []
       else [(''content'', JString (appendString (Delta_Content c)))])
      @ (if Delta_Role c = [] then []
         else [(''role'', JString (appendString (Delta_Role c)))])))"
  by (simp add: Delta_MarshalJSON_def marshal_defs FunctionCall_value_def)

lemma unmarshal_FunctionCall_encode:
  "ValidString (FunctionCall_Name f) \<Longrightarrow> ValidString (FunctionCall_Arguments f) \<Longrightarrow>
   unmarshal_FunctionCall (encode (FunctionCall_value f)) zeroFunctionCall = Inr f"
  by (simp add: encode_FunctionCall FunctionCall_setField_def findField_def
      zeroFunctionCall_def appendString_valid)

text \<open>
  C1. When the \<open>FunctionCall\<close> field of a \<open>ChatCompletionMessage\<close> or of a
  \<open>ChatCompletionStreamChoiceDelta\<close> is the zero \<open>FunctionCall\<close>, \<open>MarshalJSON\<close>
  succeeds and the object it writes has no member named \<open>function_call\<close>, at any depth.
\<close>

theorem C1_zero_FunctionCall_omitted:
  "(FunctionCall m = zeroFunctionCall \<longrightarrow>
      (\<exists>j. MarshalJSON m = Inr j \<and> ''function_call'' \<notin> set (all_keys j)))
   \<and> (Delta_FunctionCall d = zeroFunctionCall \<longrightarrow>
      (\<exists>j. Delta_MarshalJSON d = Inr j \<and> ''function_call'' \<notin> set (all_keys j)))"
  by (simp add: MarshalJSON_zero Delta_MarshalJSON_zero)

theorem C1_zero_FunctionCall_omitted_witness:
  "FunctionCall \<lparr>Role = ''user'', Content = ''hi'', FunctionCall = zeroFunctionCall,
       Name = ''ann''\<rparr> = zeroFunctionCall
   \<and> (\<exists>j. MarshalJSON \<lparr>Role = ''user'', Content = ''hi'', FunctionCall = zeroFunctionCall,
       Name = ''ann''\<rparr> = Inr j \<and> ''function_call'' \<notin> set (all_keys j))
   \<and> Delta_FunctionCall \<lparr>Delta_Content = ''hi'', Delta_Role = [],
       Delta_FunctionCall = zeroFunctionCall\<rparr> = zeroFunctionCall
   \<and> (\<exists>j. Delta_MarshalJSON \<lparr>Delta_Content = ''hi'', Delta_Role = [],
       Delta_FunctionCall = zeroFunctionCall\<rparr> = Inr j \<and> ''function_call'' \<notin> set (all_keys j))"
  using C1_zero_FunctionCall_omitted
    [of "\<lparr>Role = ''user'', Content = ''hi'', FunctionCall = zeroFunctionCall, Name = ''ann''\<rparr>"
        "\<lparr>Delta_Content = ''hi'', Delta_Role = [], Delta_FunctionCall = zeroFunctionCall\<rparr>"]
  by simp

text \<open>
  C2, as stated, fails: the two fields of \<open>FunctionCall\<close> carry \<open>omitempty\<close>
  themselves. A message whose function call has a name and empty arguments is not the
  zero value, and its encoding has the member \<open>function_call\<close> with the member
  \<open>name\<close> only.
\<close>

theorem C2_counterexample:
  "FunctionCall \<lparr>Role = ''assistant'', Content = [],
       FunctionCall = \<lparr>FunctionCall_Name = ''now'', FunctionCall_Arguments = []\<rparr>,
       Name = []\<rparr> \<noteq> zeroFunctionCall
   \<and> MarshalJSON \<lparr>Role = ''assistant'', Content = [],
       FunctionCall = \<lparr>FunctionCall_Name = ''now'', FunctionCall_Arguments = []\<rparr>,
       Name = []\<rparr>
     = Inr (JObject [(''role'', JString ''assistant''), (''content'', JString []),
              (''function_call'', JObject [(''name'', JString ''now'')])])"
  by (simp add: MarshalJSON_nonzero encode_FunctionCall zeroFunctionCall_def utf8_defs)

text \<open>
  C2, amended. When the \<open>FunctionCall\<close> field of a \<open>ChatCompletionMessage\<close> is not the
  zero value, \<open>MarshalJSON\<close> succeeds and the object it writes has the member
  \<open>function_call\<close>, once. Its value is an object that holds the member \<open>name\<close> exactly
  when the name is not empty and the member \<open>arguments\<close> exactly when the arguments are
  not empty, in this order and with the field's text as value; at least one of the two
  is there.
\<close>

theorem C2_nonzero_FunctionCall_present:
  assumes "FunctionCall m \<noteq> zeroFunctionCall"
  shows "\<exists>j fc. MarshalJSON m = Inr j
     \<and> length (filter (\<lambda>k. k = ''function_call'') (object_keys j)) = 1
     \<and> member ''function_call'' j = Some (JObject fc)
     \<and> fc = (if FunctionCall_Name (FunctionCall m) = [] then []
              else [(''name'', JString (appendString (FunctionCall_Name (FunctionCall m))))])
           @ (if FunctionCall_Arguments (FunctionCall m) = [] then []
              else [(''arguments'',
                     JString (appendString (FunctionCall_Arguments (FunctionCall m))))])
     \<and> (''name'' \<in> set (map fst fc)) = (FunctionCall_Name (FunctionCall m) \<noteq> [])
     \<and> (''arguments'' \<in> set (map fst fc)) = (FunctionCall_Arguments (FunctionCall m) \<noteq> [])
     \<and> fc \<noteq> []"
proof -
  have nonempty:
    "FunctionCall_Name (FunctionCall m) \<noteq> [] \<or> FunctionCall_Arguments (FunctionCall m) \<noteq> []"
    using assms by (cases "FunctionCall m") (simp add: zeroFunctionCall_def)
  then show ?thesis
    using assms by (auto simp add: MarshalJSON_nonzero encode_FunctionCall)
qed

theorem C2_nonzero_FunctionCall_present_witness:
  "FunctionCall \<lparr>Role = ''assistant'', Content = [],
       FunctionCall = \<lparr>FunctionCall_Name = ''now'', FunctionCall_Arguments = ''{}''\<rparr>,
       Name = []\<rparr> \<noteq> zeroFunctionCall
   \<and> (\<exists>j. MarshalJSON \<lparr>Role = ''assistant'', Content = [],
       FunctionCall = \<lparr>FunctionCall_Name = ''now'', FunctionCall_Arguments = ''{}''\<rparr>,
       Name = []\<rparr> = Inr j
     \<and> member ''function_call'' j
         = Some (JObject [(''name'', JString ''now''), (''arguments'', JString ''{}'')]))"
  using C2_nonzero_FunctionCall_present
    [of "\<lparr>Role = ''assistant'', Content = [],
       FunctionCall = \<lparr>FunctionCall_Name = ''now'', FunctionCall_Arguments = ''{}''\<rparr>,
       Name = []\<rparr>"]
  by (auto simp add: zeroFunctionCall_def utf8_defs)

text \<open>
  C7, as stated, fails: a Go string may hold bytes that are not UTF-8, and the encoder
  writes each such byte as U+FFFD. A message whose content is the single byte 0xFF comes
  back with the three bytes of U+FFFD as content.
\<close>

theorem C7_counterexample:
  "decode_encode \<lparr>Role = ''user'', Content = [CHR 0xFF], FunctionCall = zeroFunctionCall,
       Name = []\<rparr>
     = Inr \<lparr>Role = ''user'', Content = [CHR 0xEF, CHR 0xBF, CHR 0xBD],
            FunctionCall = zeroFunctionCall, Name = []\<rparr>
   \<and> decode_encode \<lparr>Role = ''user'', Content = [CHR 0xFF], FunctionCall = zeroFunctionCall,
       Name = []\<rparr>
     \<noteq> Inr \<lparr>Role = ''user'', Content = [CHR 0xFF], FunctionCall = zeroFunctionCall,
            Name = []\<rparr>"
  by (simp add: decode_encode_def MarshalJSON_zero Message_setField_def findField_def
      zeroChatCompletionMessage_def utf8_defs)

text \<open>
  C7, amended. For every \<open>ChatCompletionMessage\<close> whose five strings are valid UTF-8,
  encoding the message and decoding the result into a fresh message succeeds and gives
  the message back, whether the function call is set or not.
\<close>

theorem C7_decode_encode:
  assumes "ValidString (Role m)" and "ValidString (Content m)" and "ValidString (Name m)"
    and "ValidString (FunctionCall_Name (FunctionCall m))"
    and "ValidString (FunctionCall_Arguments (FunctionCall m))"
  shows "decode_encode m = Inr m"
proof (cases "FunctionCall m = zeroFunctionCall")
  case True
  then show ?thesis
    using assms
    by (simp add: decode_encode_def MarshalJSON_zero Message_setField_def findField_def
        zeroChatCompletionMessage_def appendString_valid)
next
  case False
  then show ?thesis
    using assms
    by (simp add: decode_encode_def MarshalJSON_nonzero Message_setField_def findField_def
        zeroChatCompletionMessage_def appendString_valid unmarshal_FunctionCall_encode)
qed

theorem C7_decode_encode_witness:
  "decode_encode \<lparr>Role = ''user'', Content = ''hi'', FunctionCall = zeroFunctionCall,
       Name = []\<rparr>
     = Inr \<lparr>Role = ''user'', Content = ''hi'', FunctionCall = zeroFunctionCall, Name = []\<rparr>
   \<and> decode_encode \<lparr>Role = ''assistant'', Content = [],
       FunctionCall = \<lparr>FunctionCall_Name = ''now'', FunctionCall_Arguments = ''{}''\<rparr>,
       Name = ''bot''\<rparr>
     = Inr \<lparr>Role = ''assistant'', Content = [],
       FunctionCall = \<lparr>FunctionCall_Name = ''now'', FunctionCall_Arguments = ''{}''\<rparr>,
       Name = ''bot''\<rparr>"
  using
    C7_decode_encode
      [of "\<lparr>Role = ''user'', Content = ''hi'', FunctionCall = zeroFunctionCall, Name = []\<rparr>"]
    C7_decode_encode
      [of "\<lparr>Role = ''assistant'', Content = [],
       FunctionCall = \<lparr>FunctionCall_Name = ''now'', FunctionCall_Arguments = ''{}''\<rparr>,
       Name = ''bot''\<rparr>"]
  by (simp add: zeroFunctionCall_def utf8_defs)

section \<open>The buffered call\<close>

lemma example_request_sel [simp]:
  "Stream (example_request m s) = s"
  "Model (example_request m s) = m"
  "(example_request m s)\<lparr>Stream := True\<rparr> = example_request m True"
  by (simp_all add: example_request_def)

lemma example_package_sel [simp]:
  "checkModelSupportsPlugins example_package m =
     (m = ''gpt-4-0613'' \<or> m = ''code-davinci-002'')"
  "checkEndpointSupportsModel example_package u m =
     (\<not> (u = ''/chat/completions'' \<and> (m = ''code-davinci-002'' \<or> m = ''ada'')))"
  "JSONUnmarshaler example_package = (\<lambda>s. None)"
  "zeroUsage example_package = ()"
  by (simp_all add: example_package_def)

lemma example_client_sel [simp]:
  "EmptyMessagesLimit example_client = 300"
  "HTTPClient_Do example_client q n
     = (Inr \<lparr>StatusCode = n, Body = [Line ''data: [DONE]'']\<rparr>, n)"
  "requestBuilder_Build example_client m u r = Inr (m @ '' '' @ u)"
  "fullURL example_client u m = ''https://api.openai.com/v1'' @ u"
  "sendRequest example_client q resp n = ((None, resp), n)"
  "newStreamRequest example_client m u r md = Inr (m @ '' '' @ u)"
  "handleErrorResp example_client rs = OtherError ''api error''"
  by (simp_all add: example_client_def)

lemma example_world_sel [simp]:
  "trace (example_world status) = []"
  "net (example_world status) = status"
  by (simp_all add: example_world_def)

text \<open>
  C3. For every request with \<open>Stream\<close> set, \<open>CreateChatCompletion\<close> returns the zero
  response and \<open>ErrChatCompletionStreamNotSupported\<close>, and leaves the world as it
  was: no request is built, nothing is dispatched, the network state is untouched.
\<close>

theorem C3_stream_flag_rejected:
  assumes "Stream request"
  shows "CreateChatCompletion p c request w =
       ((zeroChatCompletionResponse (zeroUsage p), Some ErrChatCompletionStreamNotSupported), w)
     \<and> new_events w (snd (CreateChatCompletion p c request w)) = []"
  using assms by (simp add: CreateChatCompletion_def new_events_def)

theorem C3_stream_flag_rejected_witness:
  "Stream (example_request ''gpt-4-0613'' True)
   \<and> CreateChatCompletion example_package example_client
        (example_request ''gpt-4-0613'' True) (example_world 200)
      = ((zeroChatCompletionResponse (), Some ErrChatCompletionStreamNotSupported),
         example_world 200)"
  using C3_stream_flag_rejected
    [of "example_request ''gpt-4-0613'' True" example_package example_client "example_world 200"]
  by simp

text \<open>
  C9. \<open>CreateChatCompletion\<close> checks the stream flag first, then whether the model
  supports plugins, then whether the endpoint supports the model: with \<open>Stream\<close> set
  the error is \<open>ErrChatCompletionStreamNotSupported\<close> whatever the two model checks
  say; without it, a model that fails the plugin check gives
  \<open>ErrModelNotSupportedWithPlugins\<close> whatever the endpoint check says; the endpoint
  check decides only after both. In particular a streaming request whose model fails
  both later checks gets neither of their errors.
\<close>

theorem C9_check_order:
  "(Stream request \<longrightarrow>
      snd (fst (CreateChatCompletion p c request w)) = Some ErrChatCompletionStreamNotSupported)
   \<and> (\<not> Stream request \<and> \<not> checkModelSupportsPlugins p (Model request) \<longrightarrow>
      snd (fst (CreateChatCompletion p c request w)) = Some ErrModelNotSupportedWithPlugins)
   \<and> (\<not> Stream request \<and> checkModelSupportsPlugins p (Model request)
       \<and> \<not> checkEndpointSupportsModel p ''/chat/completions'' (Model request) \<longrightarrow>
      snd (fst (CreateChatCompletion p c request w)) = Some ErrChatCompletionInvalidModel)
   \<and> (Stream request \<and> \<not> checkModelSupportsPlugins p (Model request)
       \<and> \<not> checkEndpointSupportsModel p ''/chat/completions'' (Model request) \<longrightarrow>
      snd (fst (CreateChatCompletion p c request w)) \<noteq> Some ErrModelNotSupportedWithPlugins
      \<and> snd (fst (CreateChatCompletion p c request w)) \<noteq> Some ErrChatCompletionInvalidModel)"
  by (simp add: CreateChatCompletion_def Let_def)

theorem C9_check_order_witness:
  "Stream (example_request ''ada'' True)
   \<and> \<not> checkModelSupportsPlugins example_package (Model (example_request ''ada'' True))
   \<and> \<not> checkEndpointSupportsModel example_package ''/chat/completions''
        (Model (example_request ''ada'' True))
   \<and> snd (fst (CreateChatCompletion example_package example_client
        (example_request ''ada'' True) (example_world 200)))
      = Some ErrChatCompletionStreamNotSupported
   \<and> snd (fst (CreateChatCompletion example_package example_client
        (example_request ''ada'' False) (example_world 200)))
      = Some ErrModelNotSupportedWithPlugins
   \<and> snd (fst (CreateChatCompletion example_package example_client
        (example_request ''code-davinci-002'' False) (example_world 200)))
      = Some ErrChatCompletionInvalidModel"
  using
    C9_check_order
      [of "example_request ''ada'' True" example_package example_client "example_world 200"]
    C9_check_order
      [of "example_request ''ada'' False" example_package example_client "example_world 200"]
    C9_check_order
      [of "example_request ''code-davinci-002'' False" example_package example_client
          "example_world 200"]
  by simp

section \<open>The streaming call\<close>

lemmas stream_defs =
  CreateChatCompletionStream_def CreateChatCompletionStream_body_def Let_def

text \<open>
  C4. Whatever \<open>Stream\<close> the caller gives, every request that
  \<open>CreateChatCompletionStream\<close> hands to the request builder is the caller's request
  with \<open>Stream\<close> set, and every HTTP request it dispatches is the one built from
  that. When the two model checks pass, exactly one such request is built; when the
  builder then returns an HTTP request, exactly that request is dispatched, the trace of
  the call is the build followed by the dispatch, and the network state after the call is
  the one that the transport leaves; when the builder fails, nothing is dispatched and
  the builder's error is returned.
\<close>

theorem C4_stream_forced:
  "(\<forall>r \<in> set (built_requests (new_events w (snd (CreateChatCompletionStream p c request w)))).
       Stream r \<and> r = request\<lparr>Stream := True\<rparr>)
   \<and> (\<forall>q \<in> set (dispatched (new_events w (snd (CreateChatCompletionStream p c request w)))).
       newStreamRequest c ''POST'' ''/chat/completions'' (request\<lparr>Stream := True\<rparr>)
         (Model request) = Inr q)
   \<and> (checkModelSupportsPlugins p (Model request)
        \<and> checkEndpointSupportsModel p ''/chat/completions'' (Model request) \<longrightarrow>
       built_requests (new_events w (snd (CreateChatCompletionStream p c request w)))
         = [request\<lparr>Stream := True\<rparr>])
   \<and> (checkModelSupportsPlugins p (Model request)
        \<and> checkEndpointSupportsModel p ''/chat/completions'' (Model request)
        \<and> newStreamRequest c ''POST'' ''/chat/completions'' (request\<lparr>Stream := True\<rparr>)
              (Model request) = Inr q' \<longrightarrow>
       dispatched (new_events w (snd (CreateChatCompletionStream p c request w))) = [q']
       \<and> new_events w (snd (CreateChatCompletionStream p c request w))
           = [BuildRequest ''POST'' ''/chat/completions'' (request\<lparr>Stream := True\<rparr>),
              Dispatch q']
       \<and> net (snd (CreateChatCompletionStream p c request w))
           = snd (HTTPClient_Do c q' (net w)))
   \<and> (checkModelSupportsPlugins p (Model request)
        \<and> checkEndpointSupportsModel p ''/chat/completions'' (Model request)
        \<and> newStreamRequest c ''POST'' ''/chat/completions'' (request\<lparr>Stream := True\<rparr>)
              (Model request) = Inl e \<longrightarrow>
       dispatched (new_events w (snd (CreateChatCompletionStream p c request w))) = []
       \<and> fst (CreateChatCompletionStream p c request w) = (None, Some e))"
  by (simp add: stream_defs new_events_def split: sum.splits prod.splits)

theorem C4_stream_forced_witness:
  "\<not> Stream (example_request ''gpt-4-0613'' False)
   \<and> built_requests (new_events (example_world 200)
        (snd (CreateChatCompletionStream example_package example_client
               (example_request ''gpt-4-0613'' False) (example_world 200))))
      = [example_request ''gpt-4-0613'' True]
   \<and> Stream (example_request ''gpt-4-0613'' True)
   \<and> dispatched (new_events (example_world 200)
        (snd (CreateChatCompletionStream example_package example_client
               (example_request ''gpt-4-0613'' False) (example_world 200))))
      = [''POST /chat/completions'']
   \<and> new_events (example_world 200)
        (snd (CreateChatCompletionStream example_package example_client
               (example_request ''gpt-4-0613'' False) (example_world 200)))
      = [BuildRequest ''POST'' ''/chat/completions'' (example_request ''gpt-4-0613'' True),
         Dispatch ''POST /chat/completions'']"
proof -
  have checks:
    "checkModelSupportsPlugins example_package (Model (example_request ''gpt-4-0613'' False))
     \<and> checkEndpointSupportsModel example_package ''/chat/completions''
          (Model (example_request ''gpt-4-0613'' False))"
    by simp
  have built:
    "newStreamRequest example_client ''POST'' ''/chat/completions''
       ((example_request ''gpt-4-0613'' False)\<lparr>Stream := True\<rparr>)
       (Model (example_request ''gpt-4-0613'' False)) = Inr ''POST /chat/completions''"
    by simp
  note c4 = C4_stream_forced
      [of "example_world 200" example_package example_client
          "example_request ''gpt-4-0613'' False" "''POST /chat/completions''"]
  have b: "built_requests (new_events (example_world 200)
        (snd (CreateChatCompletionStream example_package example_client
               (example_request ''gpt-4-0613'' False) (example_world 200))))
      = [(example_request ''gpt-4-0613'' False)\<lparr>Stream := True\<rparr>]"
    using c4 checks by blast
  have d: "dispatched (new_events (example_world 200)
        (snd (CreateChatCompletionStream example_package example_client
               (example_request ''gpt-4-0613'' False) (example_world 200))))
      = [''POST /chat/completions'']
    \<and> new_events (example_world 200)
        (snd (CreateChatCompletionStream example_package example_client
               (example_request ''gpt-4-0613'' False) (example_world 200)))
      = [BuildRequest ''POST'' ''/chat/completions''
           ((example_request ''gpt-4-0613'' False)\<lparr>Stream := True\<rparr>),
         Dispatch ''POST /chat/completions'']"
    using c4 checks built by blast
  show ?thesis using b d by simp
qed

text \<open>
  C5. When the two model checks pass, the request is built and the transport returns a
  response, \<open>CreateChatCompletionStream\<close> looks at the status first: on a status
  outside 200 to 299 it returns no stream and the error that \<open>handleErrorResp\<close> makes
  of the response; on a status from 200 to 299 it returns a new reader on the response
  body, with the tolerance \<open>EmptyMessagesLimit\<close> of the client's configuration, and no
  error. A stream is returned in no other case: whenever the call returns one, the
  transport has answered with a status from 200 to 299.
\<close>

theorem C5_status_checked_before_streaming:
  "(checkModelSupportsPlugins p (Model request)
      \<and> checkEndpointSupportsModel p ''/chat/completions'' (Model request)
      \<and> newStreamRequest c ''POST'' ''/chat/completions'' (request\<lparr>Stream := True\<rparr>)
            (Model request) = Inr q
      \<and> HTTPClient_Do c q (net w) = (Inr resp, n) \<longrightarrow>
     (StatusCode resp < 200 \<or> 300 \<le> StatusCode resp \<longrightarrow>
        fst (CreateChatCompletionStream p c request w)
          = (None, Some (handleErrorResp c resp)))
     \<and> (200 \<le> StatusCode resp \<and> StatusCode resp < 300 \<longrightarrow>
        fst (CreateChatCompletionStream p c request w)
          = (Some \<lparr>emptyMessagesLimit = EmptyMessagesLimit c, reader = Body resp,
                response = resp, errAccumulator = [], unmarshaler = JSONUnmarshaler p,
                emptyMessagesCount = 0, terminal = None\<rparr>, None)))
   \<and> (\<forall>s. fst (fst (CreateChatCompletionStream p c request w)) = Some s \<longrightarrow>
        (\<exists>q' resp' n'.
           newStreamRequest c ''POST'' ''/chat/completions'' (request\<lparr>Stream := True\<rparr>)
             (Model request) = Inr q'
           \<and> HTTPClient_Do c q' (net w) = (Inr resp', n')
           \<and> 200 \<le> StatusCode resp' \<and> StatusCode resp' < 300
           \<and> emptyMessagesLimit s = EmptyMessagesLimit c
           \<and> reader s = Body resp'
           \<and> snd (fst (CreateChatCompletionStream p c request w)) = None))"
  by (auto simp add: stream_defs isFailureStatusCode_def split: sum.splits prod.splits)

theorem C5_status_checked_before_streaming_witness:
  "fst (CreateChatCompletionStream example_package example_client
          (example_request ''gpt-4-0613'' False) (example_world 404))
      = (None, Some (OtherError ''api error''))
   \<and> fst (CreateChatCompletionStream example_package example_client
          (example_request ''gpt-4-0613'' False) (example_world 304))
      = (None, Some (OtherError ''api error''))
   \<and> fst (CreateChatCompletionStream example_package example_client
          (example_request ''gpt-4-0613'' False) (example_world 200))
      = (Some \<lparr>emptyMessagesLimit = 300, reader = [Line ''data: [DONE]''],
               response = \<lparr>StatusCode = 200, Body = [Line ''data: [DONE]'']\<rparr>,
               errAccumulator = [], unmarshaler = (\<lambda>s. None),
               emptyMessagesCount = 0, terminal = None\<rparr>, None)"
proof -
  have a: "fst (CreateChatCompletionStream example_package example_client
          (example_request ''gpt-4-0613'' False) (example_world 404))
      = (None, Some (OtherError ''api error''))"
    using C5_status_checked_before_streaming
      [of example_package "example_request ''gpt-4-0613'' False" example_client
          "''POST /chat/completions''" "example_world 404"
          "\<lparr>StatusCode = 404, Body = [Line ''data: [DONE]'']\<rparr>" 404]
    by simp
  have a': "fst (CreateChatCompletionStream example_package example_client
          (example_request ''gpt-4-0613'' False) (example_world 304))
      = (None, Some (OtherError ''api error''))"
    using C5_status_checked_before_streaming
      [of example_package "example_request ''gpt-4-0613'' False" example_client
          "''POST /chat/completions''" "example_world 304"
          "\<lparr>StatusCode = 304, Body = [Line ''data: [DONE]'']\<rparr>" 304]
    by simp
  have b: "fst (CreateChatCompletionStream example_package example_client
          (example_request ''gpt-4-0613'' False) (example_world 200))
      = (Some \<lparr>emptyMessagesLimit = 300, reader = [Line ''data: [DONE]''],
               response = \<lparr>StatusCode = 200, Body = [Line ''data: [DONE]'']\<rparr>,
               errAccumulator = [], unmarshaler = (\<lambda>s. None),
               emptyMessagesCount = 0, terminal = None\<rparr>, None)"
    using C5_status_checked_before_streaming
      [of example_package "example_request ''gpt-4-0613'' False" example_client
          "''POST /chat/completions''" "example_world 200"
          "\<lparr>StatusCode = 200, Body = [Line ''data: [DONE]'']\<rparr>" 200]
    by simp
  show ?thesis using a a' b by simp
qed

text \<open>
  C6, as stated, fails in its second clause: the plugin check runs before the endpoint
  check, so a request whose model fails both gets \<open>ErrModelNotSupportedWithPlugins\<close>
  although its pairing with the chat endpoint is not supported. In the small client the
  model \<open>ada\<close> is such a model.
\<close>

theorem C6_counterexample:
  "\<not> checkEndpointSupportsModel example_package ''/chat/completions''
        (Model (example_request ''ada'' False))
   \<and> CreateChatCompletionStream example_package example_client
        (example_request ''ada'' False) (example_world 200)
      = ((None, Some ErrModelNotSupportedWithPlugins), example_world 200)
   \<and> snd (fst (CreateChatCompletionStream example_package example_client
        (example_request ''ada'' False) (example_world 200)))
      \<noteq> Some ErrChatCompletionInvalidModel"
  by (simp add: stream_defs)

text \<open>
  C6, amended. \<open>CreateChatCompletionStream\<close> returns no stream and
  \<open>ErrModelNotSupportedWithPlugins\<close> for every request whose model fails the plugin
  check, and no stream and the different error \<open>ErrChatCompletionInvalidModel\<close> for
  every request whose model passes that check and is not supported by the chat
  endpoint. In both cases the world is as it was: no request is built, nothing is
  dispatched.
\<close>

theorem C6_model_checks:
  "(\<not> checkModelSupportsPlugins p (Model request) \<longrightarrow>
      CreateChatCompletionStream p c request w
        = ((None, Some ErrModelNotSupportedWithPlugins), w))
   \<and> (checkModelSupportsPlugins p (Model request)
       \<and> \<not> checkEndpointSupportsModel p ''/chat/completions'' (Model request) \<longrightarrow>
      CreateChatCompletionStream p c request w
        = ((None, Some ErrChatCompletionInvalidModel), w))
   \<and> ErrModelNotSupportedWithPlugins \<noteq> ErrChatCompletionInvalidModel"
  by (simp add: stream_defs)

theorem C6_model_checks_witness:
  "\<not> checkModelSupportsPlugins example_package (Model (example_request ''gpt-4'' False))
   \<and> CreateChatCompletionStream example_package example_client
        (example_request ''gpt-4'' False) (example_world 200)
      = ((None, Some ErrModelNotSupportedWithPlugins), example_world 200)
   \<and> checkModelSupportsPlugins example_package
        (Model (example_request ''code-davinci-002'' False))
   \<and> \<not> checkEndpointSupportsModel example_package ''/chat/completions''
        (Model (example_request ''code-davinci-002'' False))
   \<and> CreateChatCompletionStream example_package example_client
        (example_request ''code-davinci-002'' False) (example_world 200)
      = ((None, Some ErrChatCompletionInvalidModel), example_world 200)"
  using
    C6_model_checks
      [of example_package "example_request ''gpt-4'' False" example_client "example_world 200"]
    C6_model_checks
      [of example_package "example_request ''code-davinci-002'' False" example_client
          "example_world 200"]
  by simp

section \<open>The reader\<close>

lemma recv_loop_blank:
  "\<forall>l \<in> set blanks. trim l = [] \<Longrightarrow> cnt + length blanks \<le> lim \<Longrightarrow>
   recv_loop dec lim (map Line blanks @ rest) cnt acc
     = recv_loop dec lim rest (cnt + length blanks) acc"
  by (induction blanks arbitrary: cnt) simp_all

lemma recv_loop_exceeded:
  "\<forall>l \<in> set blanks. trim l = [] \<Longrightarrow> cnt \<le> lim \<Longrightarrow> lim < cnt + length blanks \<Longrightarrow>
   recv_loop dec lim (map Line blanks @ rest) cnt acc
     = (Ended (Failed EmptyExceeded), drop (Suc lim - cnt) (map Line blanks) @ rest,
        Suc lim, acc)"
proof (induction blanks arbitrary: cnt)
  case Nil
  then show ?case by simp
next
  case (Cons b blanks)
  show ?case
  proof (cases "lim < Suc cnt")
    case True
    with Cons.prems have "cnt = lim" by simp
    with Cons.prems show ?thesis by simp
  next
    case False
    then have "Suc lim - cnt = Suc (lim - cnt)" by simp
    with False Cons show ?thesis by simp
  qed
qed

lemma recv_loop_event:
  "hasPrefix (trim l) headerData \<Longrightarrow> drop (length headerData) (trim l) \<noteq> ''[DONE]'' \<Longrightarrow>
   dec (drop (length headerData) (trim l)) = Some ev \<Longrightarrow>
   recv_loop dec lim (Line l # rest) cnt acc = (Received ev, rest, 0, acc)"
  by (auto simp add: hasPrefix_def headerData_def)

lemma recv_loop_counter:
  "recv_loop dec lim ls cnt acc = (res, rest, cnt', acc') \<Longrightarrow>
   (case res of Received ev \<Rightarrow> cnt' = 0 | Ended out \<Rightarrow> cnt \<le> cnt')"
proof (induction dec lim ls cnt acc rule: recv_loop.induct)
  case (1 dec lim cnt acc)
  then show ?case by auto
next
  case (2 dec lim cause rest cnt acc)
  then show ?case by auto
next
  case (3 dec lim l rest cnt acc)
  then show ?case
    by (auto split: if_splits option.splits recv_result.splits dest: Suc_leD)
qed

lemma recv_closed:
  "terminal r = Some out \<Longrightarrow> recv_many k r = (replicate k (Ended out), r)"
  by (induction k) (simp_all add: recv_def)

text \<open>
  C8, for the reader as the spec describes it. Take an open reader with tolerance
  \<open>t\<close> and counter \<open>n\<close> (a new reader has \<open>n = 0\<close>), and lines that are all blank
  after trimming. If \<open>n\<close> plus the number of blank lines is at most \<open>t\<close> and the next
  line is a valid event line (it has the data prefix, its payload is not the sentinel,
  and the payload decodes to \<open>ev\<close>), then one \<open>recv\<close> reads all these lines and
  returns \<open>Received ev\<close>; the reader stays open, with the counter at zero, on the
  rest of the body. If \<open>n \<le> t\<close> and \<open>n\<close> plus the number of blank lines is more than
  \<open>t\<close> (so \<open>t + 1\<close> blank lines on a new reader), \<open>recv\<close> returns
  \<open>Failed EmptyExceeded\<close> and closes the reader, and every later \<open>recv\<close> returns
  that outcome again and no event. Any \<open>recv\<close> leaves the counter at zero when it
  returns an event, and does not lower it otherwise.
\<close>

theorem C8_empty_message_tolerance:
  assumes "terminal r = None" and "\<forall>l \<in> set blanks. trim l = []"
  shows
    "(emptyMessagesCount r + length blanks \<le> emptyMessagesLimit r
        \<and> hasPrefix (trim l) headerData
        \<and> drop (length headerData) (trim l) \<noteq> ''[DONE]''
        \<and> unmarshaler r (drop (length headerData) (trim l)) = Some ev \<longrightarrow>
      recv (r\<lparr>reader := map Line blanks @ Line l # rest\<rparr>)
        = (Received ev, r\<lparr>reader := rest, emptyMessagesCount := 0\<rparr>))
     \<and> (emptyMessagesCount r \<le> emptyMessagesLimit r
        \<and> emptyMessagesLimit r < emptyMessagesCount r + length blanks \<longrightarrow>
      fst (recv (r\<lparr>reader := map Line blanks @ rest\<rparr>)) = Ended (Failed EmptyExceeded)
      \<and> terminal (snd (recv (r\<lparr>reader := map Line blanks @ rest\<rparr>)))
          = Some (Failed EmptyExceeded)
      \<and> (\<forall>k. recv_many k (snd (recv (r\<lparr>reader := map Line blanks @ rest\<rparr>)))
             = (replicate k (Ended (Failed EmptyExceeded)),
                snd (recv (r\<lparr>reader := map Line blanks @ rest\<rparr>)))))
     \<and> (\<forall>res r'. recv r = (res, r') \<longrightarrow>
          (case res of
             Received ev' \<Rightarrow> emptyMessagesCount r' = 0
           | Ended out \<Rightarrow> emptyMessagesCount r \<le> emptyMessagesCount r'))"
proof (intro conjI impI allI)
  assume h: "emptyMessagesCount r + length blanks \<le> emptyMessagesLimit r
        \<and> hasPrefix (trim l) headerData
        \<and> drop (length headerData) (trim l) \<noteq> ''[DONE]''
        \<and> unmarshaler r (drop (length headerData) (trim l)) = Some ev"
  have "recv_loop (unmarshaler r) (emptyMessagesLimit r) (map Line blanks @ Line l # rest)
          (emptyMessagesCount r) (errAccumulator r)
        = (Received ev, rest, 0, errAccumulator r)"
    using assms h recv_loop_event [of l "unmarshaler r" ev "emptyMessagesLimit r" rest
        "emptyMessagesCount r + length blanks" "errAccumulator r"]
    by (simp add: recv_loop_blank del: recv_loop.simps)
  then show "recv (r\<lparr>reader := map Line blanks @ Line l # rest\<rparr>)
        = (Received ev, r\<lparr>reader := rest, emptyMessagesCount := 0\<rparr>)"
    using assms by (simp add: recv_def)
next
  assume h: "emptyMessagesCount r \<le> emptyMessagesLimit r
        \<and> emptyMessagesLimit r < emptyMessagesCount r + length blanks"
  let ?r' = "snd (recv (r\<lparr>reader := map Line blanks @ rest\<rparr>))"
  show "fst (recv (r\<lparr>reader := map Line blanks @ rest\<rparr>)) = Ended (Failed EmptyExceeded)"
    using assms h by (simp add: recv_def recv_loop_exceeded)
  show closed: "terminal ?r' = Some (Failed EmptyExceeded)"
    using assms h by (simp add: recv_def recv_loop_exceeded)
  fix k
  show "recv_many k ?r' = (replicate k (Ended (Failed EmptyExceeded)), ?r')"
    using closed by (rule recv_closed)
next
  fix res r'
  assume "recv r = (res, r')"
  then show "case res of
             Received ev' \<Rightarrow> emptyMessagesCount r' = 0
           | Ended out \<Rightarrow> emptyMessagesCount r \<le> emptyMessagesCount r'"
    using assms recv_loop_counter [of "unmarshaler r" "emptyMessagesLimit r" "reader r"
        "emptyMessagesCount r" "errAccumulator r"]
    by (auto simp add: recv_def split: prod.splits recv_result.splits)
qed

lemma example_reader_sel [simp]:
  "terminal example_reader = None"
  "emptyMessagesCount example_reader = 0"
  "emptyMessagesLimit example_reader = 2"
  "unmarshaler example_reader s = (if s = ''7'' then Some 7 else None)"
  by (simp_all add: example_reader_def)

lemma trim_examples [simp]:
  "trim ''\<newline>'' = []"
  "trim [CHR 0x0D, CHR 0x0A] = []"
  "trim [] = []"
  "trim ''data: 7\<newline>'' = ''data: 7''"
  by (simp_all add: trim_def)

theorem C8_empty_message_tolerance_witness:
  "terminal example_reader = None
   \<and> trim ''\<newline>'' = [] \<and> trim [CHR 0x0D, CHR 0x0A] = [] \<and> trim [] = []
   \<and> recv (example_reader\<lparr>reader :=
        [Line ''\<newline>'', Line [CHR 0x0D, CHR 0x0A], Line ''data: 7\<newline>'',
         Line ''data: [DONE]'']\<rparr>)
      = (Received 7,
         example_reader\<lparr>reader := [Line ''data: [DONE]''], emptyMessagesCount := 0\<rparr>)
   \<and> fst (recv (example_reader\<lparr>reader :=
        [Line ''\<newline>'', Line [CHR 0x0D, CHR 0x0A], Line [],
         Line ''data: 7\<newline>'']\<rparr>))
      = Ended (Failed EmptyExceeded)"
proof -
  have b2: "\<forall>l \<in> set [''\<newline>'', [CHR 0x0D, CHR 0x0A]]. trim l = []"
    by simp
  have b3: "\<forall>l \<in> set [''\<newline>'', [CHR 0x0D, CHR 0x0A], []]. trim l = []"
    by simp
  have op: "terminal example_reader = None"
    by simp
  have ok: "recv (example_reader\<lparr>reader :=
        [Line ''\<newline>'', Line [CHR 0x0D, CHR 0x0A], Line ''data: 7\<newline>'',
         Line ''data: [DONE]'']\<rparr>)
      = (Received 7,
         example_reader\<lparr>reader := [Line ''data: [DONE]''], emptyMessagesCount := 0\<rparr>)"
    using C8_empty_message_tolerance
      [OF op b2, of "''data: 7\<newline>''" 7 "[Line ''data: [DONE]'']"]
    by (simp add: hasPrefix_def headerData_def)
  have bad: "fst (recv (example_reader\<lparr>reader :=
        [Line ''\<newline>'', Line [CHR 0x0D, CHR 0x0A], Line [],
         Line ''data: 7\<newline>'']\<rparr>))
      = Ended (Failed EmptyExceeded)"
    using C8_empty_message_tolerance
      [OF op b3, of "[]" 0 "[Line ''data: 7\<newline>'']"]
    by simp
  show ?thesis using op ok bad by simp
qed

end
